theory Spec2Isabelle
  imports Complex_Main "HOL-Library.Sublist"
begin

section \<open>Data model (music.py)\<close>

text \<open>
  The dataclass \<^verbatim>\<open>Track\<close> and the per-guild container \<^verbatim>\<open>GuildMusicState\<close>.
  Guild and channel ids are Python ints. The volume is a Python float that the program
  only ever produces as \<^verbatim>\<open>clamped / 100\<close>; it is modelled by the exact rational.
  The \<^verbatim>\<open>asyncio.Lock\<close> of a state carries no data: no critical section of the program
  contains an \<^verbatim>\<open>await\<close>, so the lock is free whenever a coroutine is resumed. Taking
  and releasing it is recorded as events of the trace below.
\<close>

record Track =
  title :: string
  webpage_url :: string
  stream_url :: string
  requested_by :: string

record GuildMusicState =
  queue :: "Track list"
  now_playing :: "Track option"
  volume :: rat

definition new_state :: GuildMusicState where
  "new_state = \<lparr>queue = [], now_playing = None, volume = 1\<rparr>"

datatype exn =
    RuntimeError string
  | DiscordException string
  | HTTPException nat string
  | OtherException string

text \<open>The message of an exception, as \<^verbatim>\<open>str(e)\<close> gives it.\<close>

fun str_exn :: "exn \<Rightarrow> string" where
  "str_exn (RuntimeError m) = m"
| "str_exn (DiscordException m) = m"
| "str_exn (HTTPException c m) = m"
| "str_exn (OtherException m) = m"

section \<open>Strings\<close>

definition digit_char :: "nat \<Rightarrow> char" where
  "digit_char d = char_of (48 + d)"

function str_nat :: "nat \<Rightarrow> string" where
  "str_nat n = (if n < 10 then [digit_char n] else str_nat (n div 10) @ [digit_char (n mod 10)])"
  by pat_completeness auto
termination
  by (relation "measure id") auto

declare str_nat.simps [simp del]

text \<open>\<^verbatim>\<open>str(i)\<close> of a Python int, as an f-string renders it.\<close>

definition str_int :: "int \<Rightarrow> string" where
  "str_int i = (if i < 0 then CHR ''-'' # str_nat (nat (- i)) else str_nat (nat i))"

definition newline :: string where
  "newline = [CHR 0x0A]"

text \<open>\<^verbatim>\<open>sep.join(lines)\<close>.\<close>

fun join :: "string \<Rightarrow> string list \<Rightarrow> string" where
  "join sep [] = []"
| "join sep [l] = l"
| "join sep (l # ls) = l @ sep @ join sep ls"

text \<open>\<^verbatim>\<open>str.lower\<close> on the ASCII letters; other bytes are kept.\<close>

definition lower_char :: "char \<Rightarrow> char" where
  "lower_char c =
     (let n = (of_char c :: nat) in if 65 \<le> n \<and> n \<le> 90 then char_of (n + 32) else c)"

definition lower :: "string \<Rightarrow> string" where
  "lower s = map lower_char s"

text \<open>\<^verbatim>\<open>needle in haystack\<close> on strings.\<close>

fun contains :: "string \<Rightarrow> string \<Rightarrow> bool" where
  "contains [] needle = (needle = [])"
| "contains (c # cs) needle = (prefix needle (c # cs) \<or> contains cs needle)"

section \<open>Track extraction (MusicManager.extract\_track)\<close>

text \<open>
  The value \<^verbatim>\<open>ydl.extract_info\<close> returns is untyped; the code inspects it with
  \<^verbatim>\<open>isinstance\<close>, \<^verbatim>\<open>in\<close> and \<^verbatim>\<open>dict.get\<close>. A dict is an association list read with
  \<open>map_of\<close>.
\<close>

datatype pyval =
    PNone
  | PBool bool
  | PInt int
  | PStr string
  | PList "pyval list"
  | PDict "(string \<times> pyval) list"

text \<open>What the call to yt-dlp does: raise a \<^verbatim>\<open>YoutubeDLError\<close>, raise anything else, or return.\<close>

datatype ydl_outcome =
    YdlError string
  | YdlOtherError
  | YdlInfo pyval

fun is_dict :: "pyval \<Rightarrow> bool" where
  "is_dict (PDict kv) = True"
| "is_dict v = False"

text \<open>\<^verbatim>\<open>info.get(key)\<close>: the value, or \<^verbatim>\<open>None\<close> for a missing key.\<close>

fun dict_get :: "pyval \<Rightarrow> string \<Rightarrow> pyval" where
  "dict_get (PDict kv) k = (case map_of kv k of None \<Rightarrow> PNone | Some v \<Rightarrow> v)"
| "dict_get v k = PNone"

fun has_key :: "pyval \<Rightarrow> string \<Rightarrow> bool" where
  "has_key (PDict kv) k = (map_of kv k \<noteq> None)"
| "has_key v k = False"

text \<open>\<^verbatim>\<open>v if isinstance(v, str) and v else None\<close>: the non-empty strings.\<close>

fun nonempty_str :: "pyval \<Rightarrow> string option" where
  "nonempty_str (PStr s) = (if s = [] then None else Some s)"
| "nonempty_str v = None"

text \<open>Lines 150 to 159: a search result is replaced by its first entry that is a dict.\<close>

definition select_info :: "pyval \<Rightarrow> exn + pyval" where
  "select_info info =
     (if is_dict info \<and> has_key info ''entries'' then
        (case dict_get info ''entries'' of
           PList entries \<Rightarrow>
             (case find is_dict entries of
                None \<Rightarrow> Inl (RuntimeError ''No playable result found for that query.'')
              | Some entry \<Rightarrow> Inr entry)
         | _ \<Rightarrow> Inl (RuntimeError ''Unexpected YouTube response shape.''))
      else if \<not> is_dict info then Inl (RuntimeError ''Unexpected YouTube metadata shape.'')
      else Inr info)"

text \<open>Lines 161 to 181, on the dict that was selected.\<close>

definition build_track :: "pyval \<Rightarrow> string \<Rightarrow> string \<Rightarrow> exn + Track" where
  "build_track info query requester =
     (let title_v = (case nonempty_str (dict_get info ''title'') of
                       Some s \<Rightarrow> s | None \<Rightarrow> ''Unknown title'');
          webpage_v = (case nonempty_str (dict_get info ''webpage_url'') of
                         Some s \<Rightarrow> s | None \<Rightarrow> query)
      in case nonempty_str (dict_get info ''url'') of
           None \<Rightarrow> Inl (RuntimeError ''Could not extract an audio stream URL.'')
         | Some s \<Rightarrow>
             Inr \<lparr>title = title_v, webpage_url = webpage_v, stream_url = s,
                  requested_by = requester\<rparr>)"

definition extract_track :: "(string \<Rightarrow> ydl_outcome) \<Rightarrow> string \<Rightarrow> string \<Rightarrow> exn + Track" where
  "extract_track ydl query requester =
     (case ydl query of
        YdlError m \<Rightarrow>
          (let message = lower m in
           if contains message ''javascript runtime'' \<or> contains message ''challenge''
              \<or> contains message ''signature''
           then Inl (RuntimeError
             (''YouTube challenge solving failed. Ensure a JS runtime '' @
              ''(deno/node) is installed and accessible.''))
           else Inl (RuntimeError
             ''YouTube extraction failed for that query. Try another URL/search term.''))
      | YdlOtherError \<Rightarrow> Inl (RuntimeError ''Unexpected error while talking to YouTube.'')
      | YdlInfo info \<Rightarrow>
          (case select_info info of
             Inl e \<Rightarrow> Inl e
           | Inr d \<Rightarrow> build_track d query requester))"

section \<open>The world a handler runs in\<close>

text \<open>
  What the program reads and changes outside its own variables: the voice client of a
  guild (discord.py), the tasks and callbacks handed to the asyncio event loop, and the
  ordered trace of its observable actions. A render is idle, playing or paused:
  \<^verbatim>\<open>vc.is_playing()\<close> and \<^verbatim>\<open>vc.is_paused()\<close> read that status.
\<close>

datatype render_status = Idle | Playing | Paused

record VoiceClient =
  voice_connected :: bool
  channel :: "(int \<times> string) option"
  status :: render_status

text \<open>\<^verbatim>\<open>guild.voice_client\<close>: absent, some other voice protocol, or a \<^verbatim>\<open>discord.VoiceClient\<close>.\<close>

datatype voice_protocol = NoVoice | OtherProtocol | VC VoiceClient

datatype event =
    LockAcquire int
  | LockRelease int
  | LogError string
  | RenderStart int string rat
  | VcStop int
  | VcPause int
  | Followup string
  | ChannelSend int string

record world =
  states :: "int \<rightharpoonup> GuildMusicState"
  guilds :: "int \<rightharpoonup> voice_protocol"
  tasks :: "(int \<times> int option) list"
  loop_callbacks :: "(int \<times> int option) list"
  trace :: "event list"

definition emit :: "event \<Rightarrow> world \<Rightarrow> world" where
  "emit e w = w\<lparr>trace := trace w @ [e]\<rparr>"

definition log_error :: "string \<Rightarrow> world \<Rightarrow> world" where
  "log_error m w = emit (LogError m) w"

text \<open>\<^verbatim>\<open>is_playing\<close>, \<^verbatim>\<open>is_paused\<close>, \<^verbatim>\<open>is_connected\<close>, \<^verbatim>\<open>stop\<close> and \<^verbatim>\<open>pause\<close> of a voice client.\<close>

definition is_playing :: "VoiceClient \<Rightarrow> bool" where
  "is_playing v = (status v = Playing)"

definition is_paused :: "VoiceClient \<Rightarrow> bool" where
  "is_paused v = (status v = Paused)"

definition is_connected :: "VoiceClient \<Rightarrow> bool" where
  "is_connected v = voice_connected v"

definition set_vc :: "int \<Rightarrow> VoiceClient \<Rightarrow> world \<Rightarrow> world" where
  "set_vc gid v w = w\<lparr>guilds := (guilds w)(gid \<mapsto> VC v)\<rparr>"

definition vc_stop :: "int \<Rightarrow> VoiceClient \<Rightarrow> world \<Rightarrow> world" where
  "vc_stop gid v w = emit (VcStop gid) (set_vc gid (v\<lparr>status := Idle\<rparr>) w)"

definition vc_pause :: "int \<Rightarrow> VoiceClient \<Rightarrow> world \<Rightarrow> world" where
  "vc_pause gid v w =
     emit (VcPause gid) (set_vc gid (if status v = Idle then v else v\<lparr>status := Paused\<rparr>) w)"

section \<open>MusicManager (music.py)\<close>

text \<open>
  \<^verbatim>\<open>get_state\<close> inserts a fresh state for an unknown guild and returns the stored
  object; the callers mutate that object in place, which \<open>upd_state\<close> writes back
  under the same key.
\<close>

definition get_state :: "int \<Rightarrow> world \<Rightarrow> GuildMusicState \<times> world" where
  "get_state gid w =
     (case states w gid of
        None \<Rightarrow> (new_state, w\<lparr>states := (states w)(gid \<mapsto> new_state)\<rparr>)
      | Some s \<Rightarrow> (s, w))"

definition the_state :: "int \<Rightarrow> world \<Rightarrow> GuildMusicState" where
  "the_state gid w = fst (get_state gid w)"

definition upd_state :: "int \<Rightarrow> (GuildMusicState \<Rightarrow> GuildMusicState) \<Rightarrow> world \<Rightarrow> world" where
  "upd_state gid f w = w\<lparr>states := (states w)(gid \<mapsto> f (the_state gid w))\<rparr>"

text \<open>Python's \<^verbatim>\<open>round\<close>: to the nearest integer, a tie to the even one.\<close>

definition py_round :: "rat \<Rightarrow> int" where
  "py_round x =
     (let f = \<lfloor>x\<rfloor>; d = x - of_int f in
      if d < 1 / 2 then f else if 1 / 2 < d then f + 1 else if even f then f else f + 1)"

definition get_volume_percent :: "int \<Rightarrow> world \<Rightarrow> int \<times> world" where
  "get_volume_percent gid w =
     (let (state, w1) = get_state gid w in (py_round (volume state * 100), w1))"

definition set_volume_percent :: "int \<Rightarrow> int \<Rightarrow> world \<Rightarrow> int \<times> world" where
  "set_volume_percent gid percent w =
     (let (state, w1) = get_state gid w;
          clamped = max 0 (min 200 percent)
      in (clamped, upd_state gid (\<lambda>s. s\<lparr>volume := of_int clamped / 100\<rparr>) w1))"

text \<open>
  What the surroundings do during one run of \<^verbatim>\<open>play_next\<close>: whether a loop is running
  for \<^verbatim>\<open>asyncio.create_task\<close>, whether building the ffmpeg source or \<^verbatim>\<open>vc.play\<close>
  raises, and how the text channel of the now-playing message resolves.
\<close>

datatype channel_kind = Messageable | NotMessageable

record play_env =
  loop_running :: bool
  source_raises :: bool
  play_raises :: bool
  cached_channel :: "channel_kind option"
  fetch_channel :: "exn + channel_kind"
  channel_send :: "exn option"

definition now_playing_text :: "Track \<Rightarrow> string" where
  "now_playing_text track =
     ''Now playing: '' @ ''**'' @ title track @ ''** (requested by '' @ requested_by track @ '')''
       @ newline @ webpage_url track"

text \<open>
  \<^verbatim>\<open>send_now_playing_message\<close>: a \<^verbatim>\<open>DiscordException\<close> is logged, any other exception
  leaves the function (the first component of the result).
\<close>

definition send_failed :: "int \<Rightarrow> exn \<Rightarrow> world \<Rightarrow> exn option \<times> world" where
  "send_failed cid e w =
     (case e of
        DiscordException m \<Rightarrow>
          (None, log_error (''Failed to post now-playing message for channel '' @ str_int cid @ ''.'') w)
      | _ \<Rightarrow> (Some e, w))"

definition send_now_playing_message ::
    "play_env \<Rightarrow> int option \<Rightarrow> Track \<Rightarrow> world \<Rightarrow> exn option \<times> world" where
  "send_now_playing_message env text_channel_id track w =
     (case text_channel_id of
        None \<Rightarrow> (None, w)
      | Some cid \<Rightarrow>
          (case (case cached_channel env of
                   Some c \<Rightarrow> Inr (Some c)
                 | None \<Rightarrow>
                     (case fetch_channel env of
                        Inl e \<Rightarrow> Inl e
                      | Inr fetched \<Rightarrow> Inr (if fetched = Messageable then Some fetched else None)))
           of Inl e \<Rightarrow> send_failed cid e w
            | Inr ch \<Rightarrow>
                if ch = Some Messageable then
                  (case channel_send env of
                     Some e \<Rightarrow> send_failed cid e w
                   | None \<Rightarrow> (None, emit (ChannelSend cid (now_playing_text track)) w))
                else (None, w)))"

text \<open>
  \<^verbatim>\<open>_schedule_play_next\<close>: the new task waits in the loop; \<^verbatim>\<open>create_task\<close> raises a
  \<^verbatim>\<open>RuntimeError\<close> without a running loop, which is logged.
\<close>

definition schedule_play_next :: "bool \<Rightarrow> int \<Rightarrow> int option \<Rightarrow> world \<Rightarrow> world" where
  "schedule_play_next running gid text_channel_id w =
     (if running then w\<lparr>tasks := tasks w @ [(gid, text_channel_id)]\<rparr>
      else log_error ''Failed to schedule next track playback.'' w)"

text \<open>
  The completion callback \<^verbatim>\<open>after_play\<close> that \<^verbatim>\<open>play_next\<close> registers with \<^verbatim>\<open>vc.play\<close>:
  it logs an error, if there is one, and hands \<^verbatim>\<open>_schedule_play_next\<close> to the loop with
  \<^verbatim>\<open>call_soon_threadsafe\<close>.
\<close>

definition after_play :: "int \<Rightarrow> int option \<Rightarrow> exn option \<Rightarrow> world \<Rightarrow> world" where
  "after_play gid text_channel_id err w =
     (let w1 = (case err of
                  Some e \<Rightarrow> log_error (''Playback error (guild='' @ str_int gid @ '').'') w
                | None \<Rightarrow> w)
      in w1\<lparr>loop_callbacks := loop_callbacks w1 @ [(gid, text_channel_id)]\<rparr>)"

text \<open>The part of \<^verbatim>\<open>play_next\<close> after the lock is released (lines 249 to 288).\<close>

definition start_render ::
    "play_env \<Rightarrow> int \<Rightarrow> int option \<Rightarrow> VoiceClient \<Rightarrow> Track \<Rightarrow> world \<Rightarrow> exn option \<times> world" where
  "start_render env gid text_channel_id vc track w =
     (if source_raises env then
        (None, schedule_play_next (loop_running env) gid text_channel_id
           (log_error (''Failed to create ffmpeg source for '' @ [CHR 0x27] @ title track
                         @ [CHR 0x27] @ ''.'') w))
      else if play_raises env then
        (None, schedule_play_next (loop_running env) gid text_channel_id
           (log_error ''Discord voice client failed to start playback.'' w))
      else
        send_now_playing_message env text_channel_id track
          (emit (RenderStart gid (stream_url track) (volume (the_state gid w)))
             (set_vc gid (vc\<lparr>status := Playing\<rparr>) w)))"

text \<open>The body of the \<^verbatim>\<open>try\<close> of \<^verbatim>\<open>play_next\<close>; an exception that leaves it comes first.\<close>

definition play_next_try :: "play_env \<Rightarrow> int \<Rightarrow> int option \<Rightarrow> world \<Rightarrow> exn option \<times> world" where
  "play_next_try env gid text_channel_id w =
     (case guilds w gid of
        None \<Rightarrow> (None, upd_state gid (\<lambda>s. s\<lparr>now_playing := None\<rparr>) w)
      | Some NoVoice \<Rightarrow> (None, upd_state gid (\<lambda>s. s\<lparr>now_playing := None\<rparr>) w)
      | Some OtherProtocol \<Rightarrow> (None, upd_state gid (\<lambda>s. s\<lparr>now_playing := None\<rparr>) w)
      | Some (VC vc) \<Rightarrow>
          (let w1 = emit (LockAcquire gid) w in
           if is_playing vc \<or> is_paused vc then (None, emit (LockRelease gid) w1)
           else
             (case queue (the_state gid w1) of
                [] \<Rightarrow>
                  (None, emit (LockRelease gid) (upd_state gid (\<lambda>s. s\<lparr>now_playing := None\<rparr>) w1))
              | track # rest \<Rightarrow>
                  start_render env gid text_channel_id vc track
                    (emit (LockRelease gid)
                       (upd_state gid (\<lambda>s. s\<lparr>queue := rest, now_playing := Some track\<rparr>) w1)))))"

definition play_next :: "play_env \<Rightarrow> int \<Rightarrow> int option \<Rightarrow> world \<Rightarrow> world" where
  "play_next env gid text_channel_id w =
     (let (state, w0) = get_state gid w in
      case play_next_try env gid text_channel_id w0 of
        (None, w1) \<Rightarrow> w1
      | (Some exc, w1) \<Rightarrow>
          log_error ''Unexpected error in play_next.''
            (upd_state gid (\<lambda>s. s\<lparr>now_playing := None\<rparr>) w1))"

text \<open>
  The event loop: it runs a callback handed over with \<^verbatim>\<open>call_soon_threadsafe\<close> (here always
  \<^verbatim>\<open>_schedule_play_next\<close>, inside the running loop), and it runs a waiting task.
\<close>

definition run_callback :: "world \<Rightarrow> world" where
  "run_callback w =
     (case loop_callbacks w of
        [] \<Rightarrow> w
      | (gid, tcid) # rest \<Rightarrow> schedule_play_next True gid tcid (w\<lparr>loop_callbacks := rest\<rparr>))"

definition run_task :: "play_env \<Rightarrow> world \<Rightarrow> world" where
  "run_task env w =
     (case tasks w of
        [] \<Rightarrow> w
      | (gid, tcid) # rest \<Rightarrow> play_next env gid tcid (w\<lparr>tasks := rest\<rparr>))"

section \<open>The chat commands (bot.py)\<close>

text \<open>
  A command handler gets the interaction: the guild and the channel it came from (absent
  outside a server) and the invoking user, who is a guild member or not. A reply to the
  interaction is the event \<open>Followup\<close>. A handler is run from its entry to its return;
  what other coroutines do while it waits for Discord is not part of it. The handlers use
  the \<^verbatim>\<open>MusicManager\<close> of the sibling module \<^verbatim>\<open>music\<close>, taken to be the class above.
\<close>

record Member =
  display_name :: string
  voice_channel :: "(int \<times> string) option"

record Interaction =
  guild_id :: "int option"
  channel_id :: "int option"
  user :: "Member option"

definition reply :: "string \<Rightarrow> world \<Rightarrow> world" where
  "reply m w = emit (Followup m) w"

text \<open>\<^verbatim>\<open>guild.voice_client\<close> of the guild of an interaction.\<close>

definition guild_voice :: "int \<Rightarrow> world \<Rightarrow> voice_protocol" where
  "guild_voice gid w = (case guilds w gid of None \<Rightarrow> NoVoice | Some p \<Rightarrow> p)"

text \<open>
  \<^verbatim>\<open>safe_interaction_reply\<close> after the handler has deferred: a follow-up message; a
  \<^verbatim>\<open>DiscordException\<close> of the send is logged.
\<close>

definition safe_interaction_reply :: "bool \<Rightarrow> string \<Rightarrow> world \<Rightarrow> world" where
  "safe_interaction_reply delivered m w =
     (if delivered then reply m w else log_error ''Failed to send interaction response.'' w)"

definition ensure_member :: "Interaction \<Rightarrow> exn + Member" where
  "ensure_member i =
     (case user i of
        None \<Rightarrow> Inl (RuntimeError (''Could not read your member state.''))
      | Some m \<Rightarrow> Inr m)"

text \<open>What \<^verbatim>\<open>user_channel.connect()\<close> does: raise, return another protocol, or connect.\<close>

datatype connect_outcome = ConnectRaises exn | ConnectOther | ConnectOk

definition ensure_voice ::
    "connect_outcome \<Rightarrow> Interaction \<Rightarrow> world \<Rightarrow> (exn + VoiceClient) \<times> world" where
  "ensure_voice conn i w =
     (case guild_id i of
        None \<Rightarrow> (Inl (RuntimeError ''This command only works in a server.''), w)
      | Some gid \<Rightarrow>
          (case ensure_member i of
             Inl e \<Rightarrow> (Inl e, w)
           | Inr member \<Rightarrow>
               (case voice_channel member of
                  None \<Rightarrow> (Inl (RuntimeError ''You must be in a voice channel.''), w)
                | Some user_channel \<Rightarrow>
                    (case (case guild_voice gid w of
                             VC v \<Rightarrow> if is_connected v then Some v else None
                           | _ \<Rightarrow> None)
                     of Some v \<Rightarrow>
                          (case channel v of
                             None \<Rightarrow> (Inr v, w)
                           | Some (cid, name) \<Rightarrow>
                               if cid \<noteq> fst user_channel then
                                 (Inl (RuntimeError
                                    (''I'' @ [CHR 0x27] @ ''m already in **'' @ name
                                       @ ''**. Join that channel first.'')), w)
                               else (Inr v, w))
                      | None \<Rightarrow>
                          (case conn of
                             ConnectRaises e \<Rightarrow> (Inl e, w)
                           | ConnectOther \<Rightarrow>
                               (Inl (RuntimeError ''Unsupported voice protocol implementation.''),
                                w\<lparr>guilds := (guilds w)(gid \<mapsto> OtherProtocol)\<rparr>)
                           | ConnectOk \<Rightarrow>
                               (let v = \<lparr>voice_connected = True, channel = Some user_channel,
                                         status = Idle\<rparr>
                                in (Inr v, set_vc gid v w)))))))"

text \<open>
  What the surroundings do during one \<^verbatim>\<open>play\<close> command: the voice connection, yt-dlp,
  whether sending the "Added to queue" message raises, whether the error reply is
  delivered, and the surroundings of \<^verbatim>\<open>play_next\<close>.
\<close>

record command_env =
  connect :: connect_outcome
  ydl :: "string \<Rightarrow> ydl_outcome"
  added_raises :: "exn option"
  reply_delivered :: bool
  player :: play_env

text \<open>The body of the \<^verbatim>\<open>try\<close> of \<^verbatim>\<open>play\<close>; an exception that leaves it comes first.\<close>

definition bot_play_try ::
    "command_env \<Rightarrow> Interaction \<Rightarrow> string \<Rightarrow> int \<Rightarrow> int \<Rightarrow> world \<Rightarrow> exn option \<times> world" where
  "bot_play_try env i query gid cid w =
     (case ensure_voice (connect env) i w of
        (Inl e, w1) \<Rightarrow> (Some e, w1)
      | (Inr vc, w1) \<Rightarrow>
          (case ensure_member i of
             Inl e \<Rightarrow> (Some e, w1)
           | Inr member \<Rightarrow>
               (case extract_track (ydl env) query (display_name member) of
                  Inl e \<Rightarrow> (Some e, w1)
                | Inr track \<Rightarrow>
                    (let w2 = emit (LockRelease gid)
                                (upd_state gid (\<lambda>s. s\<lparr>queue := queue s @ [track]\<rparr>)
                                   (emit (LockAcquire gid) w1))
                     in case added_raises env of
                          Some e \<Rightarrow> (Some e, w2)
                        | None \<Rightarrow>
                            (let w3 = reply (''Added to queue: **'' @ title track @ ''**''
                                               @ newline @ webpage_url track) w2
                             in if \<not> is_playing vc \<and> \<not> is_paused vc
                                then (None, play_next (player env) gid (Some cid) w3)
                                else (None, w3))))))"

definition bot_play :: "command_env \<Rightarrow> Interaction \<Rightarrow> string \<Rightarrow> world \<Rightarrow> world" where
  "bot_play env i query w =
     (case (guild_id i, channel_id i) of
        (Some gid, Some cid) \<Rightarrow>
          (let (state, w0) = get_state gid w in
           case bot_play_try env i query gid cid w0 of
             (None, w1) \<Rightarrow> w1
           | (Some e, w1) \<Rightarrow> safe_interaction_reply (reply_delivered env) (str_exn e) w1)
      | _ \<Rightarrow> reply ''This command only works in a server.'' w)"




text \<open>The second half of \<^verbatim>\<open>stop\<close>: \<^verbatim>\<open>vc.stop()\<close> on a connected voice client.\<close>

definition stop_voice :: "int \<Rightarrow> world \<Rightarrow> world" where
  "stop_voice gid w =
     (case guild_voice gid w of
        VC vc \<Rightarrow> if is_connected vc then vc_stop gid vc w else w
      | _ \<Rightarrow> w)"



text \<open>The lines of the \<^verbatim>\<open>queue\<close> command and its reply.\<close>

definition queue_lines :: "int \<Rightarrow> GuildMusicState \<Rightarrow> string list" where
  "queue_lines percent state =
     [''Volume: '' @ str_int percent @ ''%'']
     @ (case now_playing state of
          Some t \<Rightarrow> [''Now: '' @ title t]
        | None \<Rightarrow> [])
     @ (if queue state \<noteq> [] then
          map (\<lambda>(idx, track). str_int (int idx + 1) @ ''. '' @ title track)
            (enumerate 0 (take 10 (queue state)))
        else [])"

definition bot_queue :: "Interaction \<Rightarrow> world \<Rightarrow> world" where
  "bot_queue i w =
     (case guild_id i of
        None \<Rightarrow> reply ''Server only.'' w
      | Some gid \<Rightarrow>
          (let (state, w0) = get_state gid w;
               (percent, w1) = get_volume_percent gid w0;
               lines = queue_lines percent state
           in if lines = [] then reply ''Queue is empty.'' w1
              else
                (let more = (if length (queue state) \<le> 10 then []
                             else newline @ ''...and ''
                                  @ str_int (int (length (queue state)) - 10) @ '' more.'')
                 in reply (''Queue:'' @ newline @ join newline lines @ more) w1)))"

section \<open>The HTTP control surface (api.py)\<close>

text \<open>A handler returns its message or raises an \<^verbatim>\<open>HTTPException\<close> with a status code.\<close>

definition ensure_guild :: "int \<Rightarrow> world \<Rightarrow> exn + voice_protocol" where
  "ensure_guild gid w =
     (case guilds w gid of
        None \<Rightarrow> Inl (HTTPException 404
                  (''Guild '' @ str_int gid @ '' is not available to the bot.''))
      | Some p \<Rightarrow> Inr p)"

definition connected_voice_client :: "voice_protocol \<Rightarrow> VoiceClient option" where
  "connected_voice_client p =
     (case p of
        VC v \<Rightarrow> if is_connected v then Some v else None
      | _ \<Rightarrow> None)"





text \<open>
  \<^verbatim>\<open>POST /guilds/{guild_id}/play\<close>. The request body has passed validation. What the
  surroundings do during one request: how the voice channel id resolves
  (\<^verbatim>\<open>guild.get_channel\<close>, \<^verbatim>\<open>bot.fetch_channel\<close>), whether \<^verbatim>\<open>move_to\<close> raises, what
  \<^verbatim>\<open>connect\<close> does, yt-dlp, the text channels of the guild, and the surroundings of
  \<^verbatim>\<open>play_next\<close>.
\<close>

record PlayRequest =
  req_query :: string
  req_requested_by :: string
  req_voice_channel_id :: "int option"
  req_text_channel_id :: "int option"

datatype channel_type = VoiceChannel | StageChannel | OtherChannel

record GuildChannel =
  ch_id :: int
  ch_name :: string
  ch_guild :: int
  ch_type :: channel_type

record api_env =
  guild_channel :: "GuildChannel option"
  fetched_channel :: "exn + GuildChannel"
  move_raises :: "exn option"
  api_connect :: connect_outcome
  api_ydl :: "string \<Rightarrow> ydl_outcome"
  system_channel :: "int option"
  text_channels :: "int list"
  api_player :: play_env

definition load_voice_channel :: "api_env \<Rightarrow> int \<Rightarrow> int \<Rightarrow> exn + GuildChannel" where
  "load_voice_channel env gid vcid =
     (case (case guild_channel env of
              Some c \<Rightarrow> Inr c
            | None \<Rightarrow>
                (case fetched_channel env of
                   Inl (DiscordException m) \<Rightarrow>
                     Inl (HTTPException 404
                            (''Voice channel '' @ str_int vcid @ '' was not found.''))
                 | Inl e \<Rightarrow> Inl e
                 | Inr c \<Rightarrow> Inr c))
      of Inl e \<Rightarrow> Inl e
       | Inr c \<Rightarrow>
           if ch_type c = OtherChannel then
             Inl (HTTPException 400 ''voice_channel_id must reference a voice or stage channel.'')
           else if ch_guild c \<noteq> gid then
             Inl (HTTPException 400 ''voice_channel_id does not belong to this guild.'')
           else Inr c)"

definition default_text_channel_id :: "api_env \<Rightarrow> int option" where
  "default_text_channel_id env =
     (case system_channel env of
        Some c \<Rightarrow> Some c
      | None \<Rightarrow> (case text_channels env of [] \<Rightarrow> None | c # cs \<Rightarrow> Some c))"

text \<open>
  \<^verbatim>\<open>voice_channel_id and active.channel and active.channel.id != voice_channel_id\<close>: an
  id that is absent or 0 is false.
\<close>

definition wants_move :: "VoiceClient \<Rightarrow> int option \<Rightarrow> bool" where
  "wants_move active voice_channel_id =
     (case voice_channel_id of
        None \<Rightarrow> False
      | Some vcid \<Rightarrow>
          vcid \<noteq> 0 \<and> (case channel active of None \<Rightarrow> False | Some (cid, name) \<Rightarrow> cid \<noteq> vcid))"

definition connect_new ::
    "api_env \<Rightarrow> int \<Rightarrow> int \<Rightarrow> world \<Rightarrow> (exn + VoiceClient) \<times> world" where
  "connect_new env gid vcid w =
     (case load_voice_channel env gid vcid of
        Inl e \<Rightarrow> (Inl e, w)
      | Inr target \<Rightarrow>
          (case api_connect env of
             ConnectRaises (DiscordException m) \<Rightarrow>
               (Inl (HTTPException 400
                       (''Failed to connect to voice channel '' @ str_int vcid @ ''.'')), w)
           | ConnectRaises e \<Rightarrow> (Inl e, w)
           | ConnectOther \<Rightarrow>
               (Inl (HTTPException 500 ''Discord returned an unsupported voice client type.''),
                w\<lparr>guilds := (guilds w)(gid \<mapsto> OtherProtocol)\<rparr>)
           | ConnectOk \<Rightarrow>
               (let v = \<lparr>voice_connected = True, channel = Some (ch_id target, ch_name target),
                         status = Idle\<rparr>
                in (Inr v, set_vc gid v w))))"

definition move_active ::
    "api_env \<Rightarrow> int \<Rightarrow> VoiceClient \<Rightarrow> int \<Rightarrow> world \<Rightarrow> (exn + VoiceClient) \<times> world" where
  "move_active env gid active vcid w =
     (case load_voice_channel env gid vcid of
        Inl e \<Rightarrow> (Inl e, w)
      | Inr target \<Rightarrow>
          (case move_raises env of
             Some (DiscordException m) \<Rightarrow>
               (Inl (HTTPException 400
                       (''Failed to move to voice channel '' @ str_int vcid @ ''.'')), w)
           | Some e \<Rightarrow> (Inl e, w)
           | None \<Rightarrow>
               (let moved = active\<lparr>channel := Some (ch_id target, ch_name target)\<rparr>
                in (Inr moved, set_vc gid moved w))))"

definition ensure_voice_connection ::
    "api_env \<Rightarrow> int \<Rightarrow> voice_protocol \<Rightarrow> int option \<Rightarrow> world
       \<Rightarrow> (exn + VoiceClient) \<times> world" where
  "ensure_voice_connection env gid guild voice_channel_id w =
     (case connected_voice_client guild of
        Some active \<Rightarrow>
          (case voice_channel_id of
             Some vcid \<Rightarrow>
               if wants_move active voice_channel_id then move_active env gid active vcid w
               else (Inr active, w)
           | None \<Rightarrow> (Inr active, w))
      | None \<Rightarrow>
          (case voice_channel_id of
             None \<Rightarrow>
               (Inl (HTTPException 400
                       ''Bot is not connected. Provide voice_channel_id to connect first.''), w)
           | Some vcid \<Rightarrow> connect_new env gid vcid w))"

text \<open>The response: message, guild id, queue length, and title, URL and requester of the track.\<close>

type_synonym play_response = "string \<times> int \<times> nat \<times> (string \<times> string \<times> string)"

definition api_play ::
    "api_env \<Rightarrow> int \<Rightarrow> PlayRequest \<Rightarrow> world \<Rightarrow> (exn + play_response) \<times> world" where
  "api_play env gid payload w =
     (case ensure_guild gid w of
        Inl e \<Rightarrow> (Inl e, w)
      | Inr guild \<Rightarrow>
          (case ensure_voice_connection env gid guild (req_voice_channel_id payload) w of
             (Inl e, w1) \<Rightarrow> (Inl e, w1)
           | (Inr vc, w1) \<Rightarrow>
               (case extract_track (api_ydl env) (req_query payload) (req_requested_by payload) of
                  Inl e \<Rightarrow> (Inl e, w1)
                | Inr track \<Rightarrow>
                    (let (state, w2) = get_state gid w1;
                         w3 = emit (LockRelease gid)
                                (upd_state gid (\<lambda>s. s\<lparr>queue := queue s @ [track]\<rparr>)
                                   (emit (LockAcquire gid) w2));
                         queue_length = length (queue (the_state gid w3));
                         tcid = (case req_text_channel_id payload of
                                   Some c \<Rightarrow> if c \<noteq> 0 then Some c
                                              else default_text_channel_id env
                                 | None \<Rightarrow> default_text_channel_id env);
                         w4 = (if \<not> is_playing vc \<and> \<not> is_paused vc
                               then play_next (api_player env) gid tcid w3 else w3)
                     in (Inr (''Track queued.'', gid, queue_length,
                              (title track, webpage_url track, requested_by track)), w4)))))"

section \<open>Example inputs\<close>

definition demo_track :: "string \<Rightarrow> Track" where
  "demo_track n =
     \<lparr>title = n, webpage_url = ''https://example.org/watch/'' @ n,
      stream_url = ''https://cdn.example.org/audio/'' @ n, requested_by = ''alice''\<rparr>"

definition demo_vc :: "render_status \<Rightarrow> VoiceClient" where
  "demo_vc st = \<lparr>voice_connected = True, channel = Some (7, ''General''), status = st\<rparr>"

text \<open>Guild 1 with a connected voice client in the given render status, a queue and a now-playing slot.\<close>

definition demo_world :: "render_status \<Rightarrow> Track list \<Rightarrow> Track option \<Rightarrow> world" where
  "demo_world st q np =
     \<lparr>states = [1 \<mapsto> \<lparr>queue = q, now_playing = np, volume = 1\<rparr>],
      guilds = [1 \<mapsto> VC (demo_vc st)],
      tasks = [], loop_callbacks = [], trace = []\<rparr>"



text \<open>Surroundings in which nothing fails, and the same with a failing ffmpeg source.\<close>

definition demo_env :: play_env where
  "demo_env =
     \<lparr>loop_running = True, source_raises = False, play_raises = False,
      cached_channel = Some Messageable, fetch_channel = Inr Messageable,
      channel_send = None\<rparr>"

definition broken_env :: play_env where
  "broken_env = demo_env\<lparr>source_raises := True\<rparr>"

definition demo_interaction :: Interaction where
  "demo_interaction =
     \<lparr>guild_id = Some 1, channel_id = Some 5,
      user = Some \<lparr>display_name = ''alice'', voice_channel = Some (7, ''General'')\<rparr>\<rparr>"

text \<open>A \<^verbatim>\<open>play\<close> command during which yt-dlp raises.\<close>

definition failing_command_env :: command_env where
  "failing_command_env =
     \<lparr>connect = ConnectOk, ydl = (\<lambda>q. YdlError ''Sign in to confirm''),
      added_raises = None, reply_delivered = True, player = demo_env\<rparr>"

text \<open>The same failure behind the HTTP surface, with the bot already connected.\<close>

definition failing_api_env :: api_env where
  "failing_api_env =
     \<lparr>guild_channel = None, fetched_channel = Inl (DiscordException ''Unknown Channel''),
      move_raises = None, api_connect = ConnectOk,
      api_ydl = (\<lambda>q. YdlError ''Sign in to confirm''),
      system_channel = None, text_channels = [5], api_player = demo_env\<rparr>"

definition demo_request :: PlayRequest where
  "demo_request =
     \<lparr>req_query = ''lofi'', req_requested_by = ''Control Panel'',
      req_voice_channel_id = None, req_text_channel_id = None\<rparr>"

text \<open>A search result whose first dict entry has an empty title and a stream URL.\<close>

definition demo_info :: pyval where
  "demo_info =
     PDict [(''entries'',
             PList [PNone, PDict [(''title'', PStr []), (''url'', PStr ''https://cdn.example.org/s'')]])]"

section \<open>Facts about the state registry\<close>

lemma the_state_alt: "the_state g w = (case states w g of None \<Rightarrow> new_state | Some s \<Rightarrow> s)"
  by (simp add: the_state_def get_state_def split: option.splits)

lemma the_state_emit [simp]: "the_state g (emit e w) = the_state g w"
  by (simp add: the_state_alt emit_def)

lemma the_state_upd_same [simp]: "the_state g (upd_state g f w) = f (the_state g w)"
  by (simp add: the_state_alt upd_state_def)

lemma the_state_get_state [simp]: "the_state g (snd (get_state h w)) = the_state g w"
  by (simp add: the_state_alt get_state_def split: option.splits)

lemma get_state_fields [simp]:
  "guilds (snd (get_state g w)) = guilds w"
  "tasks (snd (get_state g w)) = tasks w"
  "loop_callbacks (snd (get_state g w)) = loop_callbacks w"
  "trace (snd (get_state g w)) = trace w"
  by (simp_all add: get_state_def split: option.splits)

lemma emit_fields [simp]:
  "guilds (emit e w) = guilds w"
  "tasks (emit e w) = tasks w"
  "loop_callbacks (emit e w) = loop_callbacks w"
  "trace (emit e w) = trace w @ [e]"
  "states (emit e w) = states w"
  by (simp_all add: emit_def)

lemma upd_state_fields [simp]:
  "guilds (upd_state g f w) = guilds w"
  "tasks (upd_state g f w) = tasks w"
  "loop_callbacks (upd_state g f w) = loop_callbacks w"
  "trace (upd_state g f w) = trace w"
  by (simp_all add: upd_state_def)

lemma demo_world_fields [simp]:
  "the_state 1 (demo_world st q np) = \<lparr>queue = q, now_playing = np, volume = 1\<rparr>"
  "guilds (demo_world st q np) 1 = Some (VC (demo_vc st))"
  "tasks (demo_world st q np) = []"
  "loop_callbacks (demo_world st q np) = []"
  "trace (demo_world st q np) = []"
  by (simp_all add: demo_world_def the_state_alt)

lemma drained:
  "loop_callbacks w = [] \<Longrightarrow> tasks w = [] \<Longrightarrow>
     w\<lparr>loop_callbacks := [], tasks := []\<rparr> = w"
  "loop_callbacks w = [] \<Longrightarrow> tasks w = [] \<Longrightarrow>
     w\<lparr>trace := t, loop_callbacks := [], tasks := []\<rparr> = w\<lparr>trace := t\<rparr>"
  by (cases w, simp)+

section \<open>Volume\<close>

text \<open>
  C7. \<^verbatim>\<open>set_volume_percent\<close> returns \<open>max 0 (min 200 percent)\<close>, a value between 0 and
  200; afterwards the volume stored for the guild is the returned value divided by 100,
  and the queue and the now-playing slot of the guild are what they were.
\<close>

theorem set_volume_percent_clamped:
  "fst (set_volume_percent gid percent w) = max 0 (min 200 percent)
   \<and> 0 \<le> fst (set_volume_percent gid percent w)
   \<and> fst (set_volume_percent gid percent w) \<le> 200
   \<and> volume (the_state gid (snd (set_volume_percent gid percent w)))
       = of_int (fst (set_volume_percent gid percent w)) / 100
   \<and> queue (the_state gid (snd (set_volume_percent gid percent w))) = queue (the_state gid w)
   \<and> now_playing (the_state gid (snd (set_volume_percent gid percent w)))
       = now_playing (the_state gid w)"
  by (simp add: set_volume_percent_def split_beta Let_def)

section \<open>Extraction\<close>

lemma nonempty_str_Some: "nonempty_str v = Some s \<longleftrightarrow> v = PStr s \<and> s \<noteq> []"
  by (cases v) auto

lemma nonempty_str_default:
  "(case nonempty_str v of Some s \<Rightarrow> s | None \<Rightarrow> dflt)
     = (case v of PStr x \<Rightarrow> if x = [] then dflt else x | _ \<Rightarrow> dflt)"
  by (cases v) auto

lemma build_track_Inr:
  "build_track d query requester = Inr t \<longleftrightarrow>
     (\<exists>s. dict_get d ''url'' = PStr s \<and> s \<noteq> []
        \<and> t = \<lparr>title = (case dict_get d ''title'' of
                           PStr x \<Rightarrow> if x = [] then ''Unknown title'' else x
                         | _ \<Rightarrow> ''Unknown title''),
                webpage_url = (case dict_get d ''webpage_url'' of
                                 PStr x \<Rightarrow> if x = [] then query else x
                               | _ \<Rightarrow> query),
                stream_url = s,
                requested_by = requester\<rparr>)"
proof (cases "nonempty_str (dict_get d ''url'')")
  case None
  then have "\<not> (\<exists>s. dict_get d ''url'' = PStr s \<and> s \<noteq> [])"
    using nonempty_str_Some [of "dict_get d ''url''"] by auto
  with None show ?thesis
    by (simp add: build_track_def)
next
  case (Some u)
  then have u: "dict_get d ''url'' = PStr u" "u \<noteq> []"
    by (simp_all add: nonempty_str_Some)
  from Some show ?thesis
    unfolding build_track_def Let_def nonempty_str_default
    using u by auto
qed

text \<open>
  C8. \<^verbatim>\<open>extract_track\<close> produces a Track exactly when yt-dlp returns, a dict is selected
  from what it returned, and the \<^verbatim>\<open>url\<close> of that dict is a non-empty string. The Track
  then has that string as its stream URL, the extracted title (or \<^verbatim>\<open>Unknown title\<close> when
  there is none, or an empty one), the extracted \<^verbatim>\<open>webpage_url\<close> (or the query when there
  is none) and the requester. With an absent or empty stream URL the result is an error.
\<close>

theorem extract_track_result:
  "extract_track extractor query requester = Inr t \<longleftrightarrow>
     (\<exists>info d s. extractor query = YdlInfo info \<and> select_info info = Inr d
        \<and> dict_get d ''url'' = PStr s \<and> s \<noteq> []
        \<and> t = \<lparr>title = (case dict_get d ''title'' of
                           PStr x \<Rightarrow> if x = [] then ''Unknown title'' else x
                         | _ \<Rightarrow> ''Unknown title''),
                webpage_url = (case dict_get d ''webpage_url'' of
                                 PStr x \<Rightarrow> if x = [] then query else x
                               | _ \<Rightarrow> query),
                stream_url = s,
                requested_by = requester\<rparr>)"
proof (cases "extractor query")
  case (YdlError m)
  then show ?thesis by (simp add: extract_track_def Let_def)
next
  case YdlOtherError
  then show ?thesis by (simp add: extract_track_def)
next
  case (YdlInfo info)
  show ?thesis
  proof (cases "select_info info")
    case (Inl e)
    with YdlInfo show ?thesis by (simp add: extract_track_def)
  next
    case (Inr d)
    with YdlInfo show ?thesis
      by (simp add: extract_track_def build_track_Inr)
  qed
qed

theorem extract_track_result_witness:
  "extract_track (\<lambda>q. YdlInfo demo_info) ''lofi'' ''alice'' =
     Inr \<lparr>title = ''Unknown title'', webpage_url = ''lofi'',
          stream_url = ''https://cdn.example.org/s'', requested_by = ''alice''\<rparr>"
proof -
  have "select_info demo_info
          = Inr (PDict [(''title'', PStr []), (''url'', PStr ''https://cdn.example.org/s'')])"
    by (simp add: demo_info_def select_info_def)
  then show ?thesis
    using extract_track_result [of "\<lambda>q. YdlInfo demo_info" "''lofi''" "''alice''"
       "\<lparr>title = ''Unknown title'', webpage_url = ''lofi'',
         stream_url = ''https://cdn.example.org/s'', requested_by = ''alice''\<rparr>"]
    by simp
qed

section \<open>Advance (play\_next)\<close>

text \<open>
  C1. When the guild has a voice client that is playing or paused, \<^verbatim>\<open>play_next\<close> takes
  and releases the lock and does nothing else: no render is started, the queue, the
  now-playing slot and the volume of every guild are unchanged, and so are the voice
  clients and the work waiting in the loop.
\<close>

theorem play_next_active_noop:
  assumes vc: "guilds w gid = Some (VC vc)"
    and active: "is_playing vc \<or> is_paused vc"
  shows "(\<forall>g. the_state g (play_next env gid text_channel_id w) = the_state g w)
    \<and> guilds (play_next env gid text_channel_id w) = guilds w
    \<and> tasks (play_next env gid text_channel_id w) = tasks w
    \<and> loop_callbacks (play_next env gid text_channel_id w) = loop_callbacks w
    \<and> trace (play_next env gid text_channel_id w) = trace w @ [LockAcquire gid, LockRelease gid]"
proof -
  let ?w0 = "snd (get_state gid w)"
  have "play_next_try env gid text_channel_id ?w0
          = (None, emit (LockRelease gid) (emit (LockAcquire gid) ?w0))"
    using vc active by (simp add: play_next_try_def Let_def)
  then have "play_next env gid text_channel_id w
          = emit (LockRelease gid) (emit (LockAcquire gid) ?w0)"
    by (simp add: play_next_def split_beta)
  then show ?thesis by simp
qed

theorem play_next_active_noop_witness:
  "guilds (demo_world Paused [demo_track ''b''] (Some (demo_track ''a''))) 1
     = Some (VC (demo_vc Paused))
   \<and> (is_playing (demo_vc Paused) \<or> is_paused (demo_vc Paused))
   \<and> queue (the_state 1 (play_next demo_env 1 (Some 5)
        (demo_world Paused [demo_track ''b''] (Some (demo_track ''a''))))) = [demo_track ''b'']
   \<and> now_playing (the_state 1 (play_next demo_env 1 (Some 5)
        (demo_world Paused [demo_track ''b''] (Some (demo_track ''a''))))) = Some (demo_track ''a'')
   \<and> trace (play_next demo_env 1 (Some 5)
        (demo_world Paused [demo_track ''b''] (Some (demo_track ''a''))))
       = [LockAcquire 1, LockRelease 1]"
proof -
  have p: "is_playing (demo_vc Paused) \<or> is_paused (demo_vc Paused)"
    by (simp add: is_paused_def demo_vc_def)
  have g: "guilds (demo_world Paused [demo_track ''b''] (Some (demo_track ''a''))) 1
             = Some (VC (demo_vc Paused))"
    by simp
  show ?thesis
    using play_next_active_noop [OF g p, of demo_env "Some 5"] p by simp
qed

lemma set_vc_fields [simp]:
  "states (set_vc g v w) = states w"
  "guilds (set_vc g v w) = (guilds w)(g \<mapsto> VC v)"
  "tasks (set_vc g v w) = tasks w"
  "loop_callbacks (set_vc g v w) = loop_callbacks w"
  "trace (set_vc g v w) = trace w"
  "the_state h (set_vc g v w) = the_state h w"
  by (simp_all add: set_vc_def the_state_alt)

lemma schedule_fields [simp]:
  "states (schedule_play_next r g t w) = states w"
  "guilds (schedule_play_next r g t w) = guilds w"
  "loop_callbacks (schedule_play_next r g t w) = loop_callbacks w"
  "the_state h (schedule_play_next r g t w) = the_state h w"
  "tasks (schedule_play_next True g t w) = tasks w @ [(g, t)]"
  "trace (schedule_play_next True g t w) = trace w"
  by (simp_all add: schedule_play_next_def the_state_alt log_error_def emit_def)

lemma log_error_fields [simp]:
  "states (log_error m w) = states w"
  "guilds (log_error m w) = guilds w"
  "tasks (log_error m w) = tasks w"
  "loop_callbacks (log_error m w) = loop_callbacks w"
  "trace (log_error m w) = trace w @ [LogError m]"
  "the_state h (log_error m w) = the_state h w"
  by (simp_all add: log_error_def)

lemma start_render_fails:
  assumes "source_raises env \<or> play_raises env" and "loop_running env"
  shows "\<exists>m. start_render env gid tcid vc track w
           = (None, schedule_play_next True gid tcid (log_error m w))"
  using assms by (auto simp: start_render_def)

lemma play_next_pop:
  assumes vc: "guilds w gid = Some (VC vc)"
    and idle: "status vc = Idle"
    and q: "queue (the_state gid w) = track # rest"
  shows "play_next_try env gid tcid (snd (get_state gid w))
     = start_render env gid tcid vc track
        (emit (LockRelease gid)
           (upd_state gid (\<lambda>s. s\<lparr>queue := rest, now_playing := Some track\<rparr>)
              (emit (LockAcquire gid) (snd (get_state gid w)))))"
  using assms by (simp add: play_next_try_def Let_def is_playing_def is_paused_def)

lemma send_failed_frame:
  "send_failed cid e w = (x, w') \<Longrightarrow>
     states w' = states w \<and> guilds w' = guilds w \<and> tasks w' = tasks w
     \<and> loop_callbacks w' = loop_callbacks w \<and> (\<exists>es. trace w' = trace w @ es)"
  by (auto simp: send_failed_def split: exn.splits)

lemma send_now_playing_frame:
  "send_now_playing_message env tcid track w = (x, w') \<Longrightarrow>
     states w' = states w \<and> guilds w' = guilds w \<and> tasks w' = tasks w
     \<and> loop_callbacks w' = loop_callbacks w \<and> (\<exists>es. trace w' = trace w @ es)"
  unfolding send_now_playing_message_def
  by (auto split: option.splits sum.splits if_splits dest!: send_failed_frame)

lemma the_state_cong: "states w' = states w \<Longrightarrow> the_state g w' = the_state g w"
  by (simp add: the_state_alt)

lemma play_next_starts:
  assumes vc: "guilds w gid = Some (VC vc)"
    and idle: "status vc = Idle"
    and q: "queue (the_state gid w) = track # rest"
    and ok: "\<not> source_raises env" "\<not> play_raises env"
  shows "queue (the_state gid (play_next env gid tcid w)) = rest
    \<and> guilds (play_next env gid tcid w) = (guilds w)(gid \<mapsto> VC (vc\<lparr>status := Playing\<rparr>))
    \<and> RenderStart gid (stream_url track) (volume (the_state gid w))
         \<in> set (trace (play_next env gid tcid w))
    \<and> now_playing (the_state gid (play_next env gid tcid w))
         = (if fst (play_next_try env gid tcid (snd (get_state gid w))) = None
            then Some track else None)"
proof -
  let ?w0 = "snd (get_state gid w)"
  let ?w1 = "emit (LockRelease gid)
           (upd_state gid (\<lambda>s. s\<lparr>queue := rest, now_playing := Some track\<rparr>)
              (emit (LockAcquire gid) ?w0))"
  let ?w2 = "emit (RenderStart gid (stream_url track) (volume (the_state gid ?w1)))
             (set_vc gid (vc\<lparr>status := Playing\<rparr>) ?w1)"
  obtain x w3 where s: "send_now_playing_message env tcid track ?w2 = (x, w3)"
    by (cases "send_now_playing_message env tcid track ?w2")
  from send_now_playing_frame [OF s] obtain es where
    fr: "states w3 = states ?w2" "guilds w3 = guilds ?w2" "trace w3 = trace ?w2 @ es"
    by blast
  have t: "play_next_try env gid tcid ?w0 = (x, w3)"
    using play_next_pop [OF vc idle q, of env tcid] ok s by (simp add: start_render_def)
  have st: "the_state gid w3 = (the_state gid w)\<lparr>queue := rest, now_playing := Some track\<rparr>"
    using the_state_cong [OF fr(1), of gid] by simp
  show ?thesis
  proof (cases x)
    case None
    with t have "play_next env gid tcid w = w3"
      by (simp add: play_next_def split_beta)
    with None t st fr show ?thesis by simp
  next
    case (Some e)
    with t have "play_next env gid tcid w
        = log_error ''Unexpected error in play_next.''
            (upd_state gid (\<lambda>s. s\<lparr>now_playing := None\<rparr>) w3)"
      by (simp add: play_next_def split_beta)
    with Some t st fr show ?thesis by simp
  qed
qed


lemma tasks_update_frame [simp]:
  "the_state g (w\<lparr>tasks := ts\<rparr>) = the_state g w"
  "guilds (w\<lparr>tasks := ts\<rparr>) = guilds w"
  by (simp_all add: the_state_alt)

text \<open>
  C3. When the head of the queue is popped and starting its render fails (building the
  ffmpeg source raises, or \<^verbatim>\<open>vc.play\<close> raises), no exception leaves the \<^verbatim>\<open>try\<close> of
  \<^verbatim>\<open>play_next\<close>: the failure is logged, one new \<^verbatim>\<open>play_next\<close> task for the same guild is
  handed to the running loop, the broken track is gone from the queue and no render was
  started. When the loop then runs that task and the next start does not fail, the next
  track of the queue is rendered.
\<close>

theorem play_next_start_failure:
  assumes vc: "guilds w gid = Some (VC vc)"
    and idle: "status vc = Idle"
    and q: "queue (the_state gid w) = track # rest"
    and fails: "source_raises env \<or> play_raises env"
    and loop: "loop_running env"
  shows "fst (play_next_try env gid tcid (snd (get_state gid w))) = None
    \<and> (\<exists>m. trace (play_next env gid tcid w)
              = trace w @ [LockAcquire gid, LockRelease gid, LogError m])
    \<and> tasks (play_next env gid tcid w) = tasks w @ [(gid, tcid)]
    \<and> queue (the_state gid (play_next env gid tcid w)) = rest
    \<and> guilds (play_next env gid tcid w) = guilds w
    \<and> (\<forall>env2 t2 rest2.
          tasks w = [] \<and> rest = t2 # rest2 \<and> \<not> source_raises env2 \<and> \<not> play_raises env2 \<longrightarrow>
            queue (the_state gid (run_task env2 (play_next env gid tcid w))) = rest2
            \<and> guilds (run_task env2 (play_next env gid tcid w)) gid
                = Some (VC (vc\<lparr>status := Playing\<rparr>))
            \<and> RenderStart gid (stream_url t2) (volume (the_state gid w))
                \<in> set (trace (run_task env2 (play_next env gid tcid w))))"
proof -
  let ?w0 = "snd (get_state gid w)"
  let ?w1 = "emit (LockRelease gid)
           (upd_state gid (\<lambda>s. s\<lparr>queue := rest, now_playing := Some track\<rparr>)
              (emit (LockAcquire gid) ?w0))"
  let ?w' = "play_next env gid tcid w"
  obtain m where m: "start_render env gid tcid vc track ?w1
           = (None, schedule_play_next True gid tcid (log_error m ?w1))"
    using start_render_fails [OF fails loop] by blast
  have t: "play_next_try env gid tcid ?w0 = (None, schedule_play_next True gid tcid (log_error m ?w1))"
    using play_next_pop [OF vc idle q] m by simp
  then have p: "?w' = schedule_play_next True gid tcid (log_error m ?w1)"
    by (simp add: play_next_def split_beta)
  have first: "fst (play_next_try env gid tcid ?w0) = None"
    using t by simp
  have tr: "trace ?w' = trace w @ [LockAcquire gid, LockRelease gid, LogError m]"
    unfolding p by simp
  have ts: "tasks ?w' = tasks w @ [(gid, tcid)]"
    unfolding p by simp
  have st: "the_state gid ?w' = (the_state gid w)\<lparr>queue := rest, now_playing := Some track\<rparr>"
    unfolding p by simp
  have gs: "guilds ?w' = guilds w"
    unfolding p by simp
  have cont: "queue (the_state gid (run_task env2 ?w')) = rest2
            \<and> guilds (run_task env2 ?w') gid = Some (VC (vc\<lparr>status := Playing\<rparr>))
            \<and> RenderStart gid (stream_url t2) (volume (the_state gid w))
                \<in> set (trace (run_task env2 ?w'))"
    if h: "tasks w = []" "rest = t2 # rest2" "\<not> source_raises env2" "\<not> play_raises env2"
    for env2 t2 rest2
  proof -
    let ?w2 = "?w'\<lparr>tasks := []\<rparr>"
    have r: "run_task env2 ?w' = play_next env2 gid tcid ?w2"
      using ts h(1) by (simp add: run_task_def)
    have vc2: "guilds ?w2 gid = Some (VC vc)"
      using gs vc by simp
    have q2: "queue (the_state gid ?w2) = t2 # rest2"
      using st h(2) by simp
    have v2: "volume (the_state gid ?w2) = volume (the_state gid w)"
      using st by simp
    show ?thesis
      unfolding r using play_next_starts [OF vc2 idle q2 h(3) h(4), of tcid] v2 by simp
  qed
  show ?thesis
    using first tr ts st gs cont by simp
qed

theorem play_next_start_failure_witness:
  "guilds (demo_world Idle [demo_track ''a'', demo_track ''b''] None) 1 = Some (VC (demo_vc Idle))
   \<and> status (demo_vc Idle) = Idle
   \<and> (source_raises broken_env \<or> play_raises broken_env) \<and> loop_running broken_env
   \<and> \<not> source_raises demo_env \<and> \<not> play_raises demo_env
   \<and> tasks (play_next broken_env 1 (Some 5)
        (demo_world Idle [demo_track ''a'', demo_track ''b''] None)) = [(1, Some 5)]
   \<and> queue (the_state 1 (play_next broken_env 1 (Some 5)
        (demo_world Idle [demo_track ''a'', demo_track ''b''] None))) = [demo_track ''b'']
   \<and> RenderStart 1 (stream_url (demo_track ''b'')) 1
        \<in> set (trace (run_task demo_env (play_next broken_env 1 (Some 5)
             (demo_world Idle [demo_track ''a'', demo_track ''b''] None))))"
proof -
  let ?w = "demo_world Idle [demo_track ''a'', demo_track ''b''] None"
  have g: "guilds ?w 1 = Some (VC (demo_vc Idle))" by simp
  have i: "status (demo_vc Idle) = Idle" by (simp add: demo_vc_def)
  have q: "queue (the_state 1 ?w) = demo_track ''a'' # [demo_track ''b'']" by simp
  have f: "source_raises broken_env \<or> play_raises broken_env"
    by (simp add: broken_env_def)
  have l: "loop_running broken_env" by (simp add: broken_env_def demo_env_def)
  have ok: "\<not> source_raises demo_env \<and> \<not> play_raises demo_env" by (simp add: demo_env_def)
  show ?thesis
    using play_next_start_failure [OF g i q f l, of "Some 5"] g i f l ok by simp
qed

section \<open>Stop, skip and pause\<close>

lemma reply_fields [simp]:
  "states (reply m w) = states w"
  "guilds (reply m w) = guilds w"
  "tasks (reply m w) = tasks w"
  "loop_callbacks (reply m w) = loop_callbacks w"
  "trace (reply m w) = trace w @ [Followup m]"
  "the_state h (reply m w) = the_state h w"
  by (simp_all add: reply_def)

lemma vc_stop_fields [simp]:
  "states (vc_stop g v w) = states w"
  "guilds (vc_stop g v w) = (guilds w)(g \<mapsto> VC (v\<lparr>status := Idle\<rparr>))"
  "tasks (vc_stop g v w) = tasks w"
  "loop_callbacks (vc_stop g v w) = loop_callbacks w"
  "trace (vc_stop g v w) = trace w @ [VcStop g]"
  "the_state h (vc_stop g v w) = the_state h w"
  by (simp_all add: vc_stop_def)

lemma guild_voice_frame [simp]:
  "guild_voice g (snd (get_state h w)) = guild_voice g w"
  by (simp add: guild_voice_def)

lemma stop_voice_fields [simp]:
  "states (stop_voice g w) = states w"
  "tasks (stop_voice g w) = tasks w"
  "loop_callbacks (stop_voice g w) = loop_callbacks w"
  "the_state h (stop_voice g w) = the_state h w"
  by (simp_all add: stop_voice_def split: voice_protocol.splits)

lemma vc_pause_fields [simp]:
  "states (vc_pause g v w) = states w"
  "tasks (vc_pause g v w) = tasks w"
  "loop_callbacks (vc_pause g v w) = loop_callbacks w"
  "trace (vc_pause g v w) = trace w @ [VcPause g]"
  "the_state h (vc_pause g v w) = the_state h w"
  by (simp_all add: vc_pause_def)

lemma demo_interaction_guild [simp]: "guild_id demo_interaction = Some 1"
  by (simp add: demo_interaction_def)

lemma demo_vc_fields [simp]:
  "is_connected (demo_vc st)"
  "status (demo_vc st) = st"
  by (simp_all add: demo_vc_def is_connected_def)

lemma demo_world_voice [simp]: "guild_voice 1 (demo_world st q np) = VC (demo_vc st)"
  by (simp add: guild_voice_def)
















section \<open>The completion callback\<close>

text \<open>
  C9. For every completion, with or without an error, \<^verbatim>\<open>after_play\<close> leaves the state
  registry, the voice clients and the tasks untouched: it logs the error, if any, and
  appends one callback for the guild to what was handed to the loop. Only when the loop
  runs that callback is the \<^verbatim>\<open>play_next\<close> task created, and only when the loop runs that
  task does \<^verbatim>\<open>play_next\<close> run.
\<close>

theorem after_play_hands_over:
  "states (after_play gid tcid err w) = states w
   \<and> guilds (after_play gid tcid err w) = guilds w
   \<and> tasks (after_play gid tcid err w) = tasks w
   \<and> loop_callbacks (after_play gid tcid err w) = loop_callbacks w @ [(gid, tcid)]
   \<and> trace (after_play gid tcid err w)
       = trace w @ (case err of
                      None \<Rightarrow> []
                    | Some e \<Rightarrow> [LogError (''Playback error (guild='' @ str_int gid @ '').'')])
   \<and> (loop_callbacks w = [] \<longrightarrow>
         states (run_callback (after_play gid tcid err w)) = states w
         \<and> guilds (run_callback (after_play gid tcid err w)) = guilds w
         \<and> loop_callbacks (run_callback (after_play gid tcid err w)) = []
         \<and> tasks (run_callback (after_play gid tcid err w)) = tasks w @ [(gid, tcid)])
   \<and> (loop_callbacks w = [] \<and> tasks w = [] \<longrightarrow>
         run_task env (run_callback (after_play gid tcid err w))
           = play_next env gid tcid
               (case err of
                  None \<Rightarrow> w
                | Some e \<Rightarrow> log_error (''Playback error (guild='' @ str_int gid @ '').'') w))"
proof (cases err)
  case None
  then show ?thesis
    by (simp add: after_play_def run_callback_def run_task_def schedule_play_next_def
          drained)
next
  case (Some e)
  then show ?thesis
    by (simp add: after_play_def run_callback_def run_task_def schedule_play_next_def
          log_error_def emit_def drained)
qed

theorem after_play_hands_over_witness:
  "loop_callbacks (demo_world Idle [demo_track ''b''] (Some (demo_track ''a''))) = []
   \<and> tasks (demo_world Idle [demo_track ''b''] (Some (demo_track ''a''))) = []
   \<and> the_state 1 (after_play 1 (Some 5) (Some (OtherException ''ffmpeg died''))
        (demo_world Idle [demo_track ''b''] (Some (demo_track ''a''))))
       = the_state 1 (demo_world Idle [demo_track ''b''] (Some (demo_track ''a'')))
   \<and> loop_callbacks (after_play 1 (Some 5) (Some (OtherException ''ffmpeg died''))
        (demo_world Idle [demo_track ''b''] (Some (demo_track ''a'')))) = [(1, Some 5)]
   \<and> tasks (run_callback (after_play 1 (Some 5) (Some (OtherException ''ffmpeg died''))
        (demo_world Idle [demo_track ''b''] (Some (demo_track ''a''))))) = [(1, Some 5)]"
proof -
  let ?w = "demo_world Idle [demo_track ''b''] (Some (demo_track ''a''))"
  have e: "loop_callbacks ?w = []" "tasks ?w = []" by simp_all
  show ?thesis
    using after_play_hands_over [of 1 "Some 5" "Some (OtherException ''ffmpeg died'')" ?w demo_env] e
    by (simp add: the_state_alt)
qed

section \<open>The queue command\<close>

lemma join_Cons: "\<exists>rest. join sep (l # ls) = l @ rest"
  by (cases ls) simp_all

lemma get_volume_percent_eq:
  "get_volume_percent gid w = (py_round (volume (the_state gid w) * 100), snd (get_state gid w))"
  by (simp add: get_volume_percent_def the_state_def split_beta)

lemma get_state_twice [simp]: "snd (get_state g (snd (get_state g w))) = snd (get_state g w)"
  by (simp add: get_state_def split: option.splits)

text \<open>
  C10. The lines of the \<^verbatim>\<open>queue\<close> command are never empty. The command sends exactly
  one reply, which is never \<^verbatim>\<open>Queue is empty.\<close>; for an interaction from a guild the
  reply starts with \<^verbatim>\<open>Queue:\<close>, a newline and the volume line of that guild.
\<close>

theorem queue_reply_never_empty:
  "queue_lines percent state \<noteq> []
   \<and> (\<exists>m. trace (bot_queue i w) = trace w @ [Followup m] \<and> m \<noteq> ''Queue is empty.''
          \<and> (\<forall>gid. guild_id i = Some gid \<longrightarrow>
                (\<exists>rest. m = ''Queue:'' @ newline @ ''Volume: ''
                              @ str_int (fst (get_volume_percent gid w)) @ ''%'' @ rest)))"
proof -
  have l: "queue_lines percent state \<noteq> []" for percent state
    by (simp add: queue_lines_def)
  show ?thesis
  proof (cases "guild_id i")
    case None
    then show ?thesis
      using l by (simp add: bot_queue_def)
  next
    case (Some gid)
    let ?p = "py_round (volume (the_state gid w) * 100)"
    let ?s = "the_state gid w"
    obtain tl where ql: "queue_lines ?p ?s = (''Volume: '' @ str_int ?p @ ''%'') # tl"
      by (simp add: queue_lines_def)
    obtain r where r: "join newline (queue_lines ?p ?s) = (''Volume: '' @ str_int ?p @ ''%'') @ r"
      using join_Cons [of newline "''Volume: '' @ str_int ?p @ ''%''" tl] ql by auto
    let ?more = "(if length (queue ?s) \<le> 10 then []
                  else newline @ ''...and '' @ str_int (int (length (queue ?s)) - 10) @ '' more.'')"
    have b: "bot_queue i w
       = reply (''Queue:'' @ newline @ join newline (queue_lines ?p ?s) @ ?more)
           (snd (get_state gid w))"
      using Some l [of ?p ?s]
      by (simp add: bot_queue_def get_volume_percent_eq split_beta Let_def
            the_state_def [symmetric])
    show ?thesis
      using l Some unfolding b r
      by (simp add: get_volume_percent_eq)
  qed
qed

theorem queue_reply_never_empty_witness:
  "guild_id demo_interaction = Some 1
   \<and> trace (bot_queue demo_interaction (demo_world Idle [] None))
       = [Followup (''Queue:'' @ newline @ ''Volume: 100%'')]"
proof -
  have v: "fst (get_volume_percent 1 (demo_world Idle [] None)) = 100"
    by (simp add: get_volume_percent_eq py_round_def)
  have s: "str_int 100 = ''100''" by code_simp
  have g: "guild_id demo_interaction = Some 1" by (simp add: demo_interaction_def)
  have b: "trace (bot_queue demo_interaction (demo_world Idle [] None))
       = [Followup (''Queue:'' @ newline @ ''Volume: 100%'')]"
    by (simp add: bot_queue_def g get_volume_percent_eq py_round_def queue_lines_def s
          split_beta Let_def the_state_def [symmetric])
  show ?thesis
    using queue_reply_never_empty [of 0 new_state demo_interaction "demo_world Idle [] None"] g b
    by simp
qed

section \<open>Enqueue\<close>

lemma ensure_voice_frame:
  "ensure_voice conn i w = (r, w') \<Longrightarrow>
     states w' = states w \<and> tasks w' = tasks w \<and> loop_callbacks w' = loop_callbacks w
     \<and> trace w' = trace w"
  unfolding ensure_voice_def
  by (auto simp: set_vc_def Let_def
      split: option.splits sum.splits voice_protocol.splits if_splits connect_outcome.splits
        prod.splits)

lemma safe_reply_fields [simp]:
  "states (safe_interaction_reply d m w) = states w"
  "guilds (safe_interaction_reply d m w) = guilds w"
  "tasks (safe_interaction_reply d m w) = tasks w"
  "loop_callbacks (safe_interaction_reply d m w) = loop_callbacks w"
  "trace (safe_interaction_reply True m w) = trace w @ [Followup m]"
  by (simp_all add: safe_interaction_reply_def reply_def log_error_def)

lemma connect_new_frame:
  "connect_new env gid vcid w = (r, w') \<Longrightarrow>
     states w' = states w \<and> tasks w' = tasks w \<and> loop_callbacks w' = loop_callbacks w
     \<and> trace w' = trace w"
  unfolding connect_new_def
  by (auto simp: Let_def split: sum.splits connect_outcome.splits exn.splits)

lemma move_active_frame:
  "move_active env gid active vcid w = (r, w') \<Longrightarrow>
     states w' = states w \<and> tasks w' = tasks w \<and> loop_callbacks w' = loop_callbacks w
     \<and> trace w' = trace w"
  unfolding move_active_def
  by (auto simp: Let_def split: sum.splits option.splits exn.splits)

lemma ensure_voice_connection_frame:
  "ensure_voice_connection env gid guild vcid w = (r, w') \<Longrightarrow>
     states w' = states w \<and> tasks w' = tasks w \<and> loop_callbacks w' = loop_callbacks w
     \<and> trace w' = trace w"
  unfolding ensure_voice_connection_def
  by (auto split: option.splits if_splits dest: connect_new_frame move_active_frame)

text \<open>
  C4. A \<^verbatim>\<open>play\<close> request for which the voice connection is obtained and
  \<^verbatim>\<open>extract_track\<close> then raises. As a chat command (from a guild member in a guild
  channel): the state of every guild (queue, now-playing slot, volume) is what it was,
  nothing was handed to the loop, and the only action is the reply to the caller carrying
  the message of the error. Over HTTP (for a guild the bot knows): the handler raises that
  error, and the state registry, the trace and the work of the loop are what they were.
\<close>

theorem play_extraction_failure:
  "(guild_id i = Some gid \<and> channel_id i = Some cid \<and> user i = Some member
      \<and> fst (ensure_voice (connect env) i (snd (get_state gid w))) = Inr vc
      \<and> extract_track (ydl env) query (display_name member) = Inl e
      \<and> reply_delivered env
    \<longrightarrow> (\<forall>h. the_state h (bot_play env i query w) = the_state h w)
        \<and> trace (bot_play env i query w) = trace w @ [Followup (str_exn e)]
        \<and> tasks (bot_play env i query w) = tasks w
        \<and> loop_callbacks (bot_play env i query w) = loop_callbacks w)
   \<and> (guilds w gid = Some guild
      \<and> fst (ensure_voice_connection aenv gid guild (req_voice_channel_id payload) w) = Inr avc
      \<and> extract_track (api_ydl aenv) (req_query payload) (req_requested_by payload) = Inl e
    \<longrightarrow> fst (api_play aenv gid payload w) = Inl e
        \<and> states (snd (api_play aenv gid payload w)) = states w
        \<and> trace (snd (api_play aenv gid payload w)) = trace w
        \<and> tasks (snd (api_play aenv gid payload w)) = tasks w
        \<and> loop_callbacks (snd (api_play aenv gid payload w)) = loop_callbacks w)"
proof (intro conjI impI)
  assume a: "guild_id i = Some gid \<and> channel_id i = Some cid \<and> user i = Some member
      \<and> fst (ensure_voice (connect env) i (snd (get_state gid w))) = Inr vc
      \<and> extract_track (ydl env) query (display_name member) = Inl e
      \<and> reply_delivered env"
  let ?w0 = "snd (get_state gid w)"
  obtain w1 where ev: "ensure_voice (connect env) i ?w0 = (Inr vc, w1)"
    using a by (cases "ensure_voice (connect env) i ?w0") simp
  from ensure_voice_frame [OF ev]
  have fr: "states w1 = states ?w0" "tasks w1 = tasks ?w0"
    "loop_callbacks w1 = loop_callbacks ?w0" "trace w1 = trace ?w0"
    by simp_all
  have t: "bot_play_try env i query gid cid ?w0 = (Some e, w1)"
    using ev a by (simp add: bot_play_try_def ensure_member_def)
  have b: "bot_play env i query w = safe_interaction_reply True (str_exn e) w1"
    using a t by (simp add: bot_play_def split_beta)
  have s: "the_state h w1 = the_state h w" for h
    using fr(1) by (simp add: the_state_alt get_state_def split: option.splits)
  show "\<forall>h. the_state h (bot_play env i query w) = the_state h w"
    unfolding b using s by (simp add: safe_interaction_reply_def)
  show "trace (bot_play env i query w) = trace w @ [Followup (str_exn e)]"
    unfolding b using fr by simp
  show "tasks (bot_play env i query w) = tasks w"
    unfolding b using fr by simp
  show "loop_callbacks (bot_play env i query w) = loop_callbacks w"
    unfolding b using fr by simp
next
  assume a: "guilds w gid = Some guild
      \<and> fst (ensure_voice_connection aenv gid guild (req_voice_channel_id payload) w) = Inr avc
      \<and> extract_track (api_ydl aenv) (req_query payload) (req_requested_by payload) = Inl e"
  obtain w1 where ev:
    "ensure_voice_connection aenv gid guild (req_voice_channel_id payload) w = (Inr avc, w1)"
    using a by (cases "ensure_voice_connection aenv gid guild (req_voice_channel_id payload) w") simp
  from ensure_voice_connection_frame [OF ev]
  have fr: "states w1 = states w" "tasks w1 = tasks w"
    "loop_callbacks w1 = loop_callbacks w" "trace w1 = trace w"
    by simp_all
  have p: "api_play aenv gid payload w = (Inl e, w1)"
    using a ev by (simp add: api_play_def ensure_guild_def)
  show "fst (api_play aenv gid payload w) = Inl e"
    unfolding p by simp
  show "states (snd (api_play aenv gid payload w)) = states w"
    unfolding p using fr by simp
  show "trace (snd (api_play aenv gid payload w)) = trace w"
    unfolding p using fr by simp
  show "tasks (snd (api_play aenv gid payload w)) = tasks w"
    unfolding p using fr by simp
  show "loop_callbacks (snd (api_play aenv gid payload w)) = loop_callbacks w"
    unfolding p using fr by simp
qed

theorem play_extraction_failure_witness:
  "guild_id demo_interaction = Some 1 \<and> channel_id demo_interaction = Some 5
   \<and> reply_delivered failing_command_env
   \<and> extract_track (ydl failing_command_env) ''lofi'' ''alice''
       = Inl (RuntimeError
           ''YouTube extraction failed for that query. Try another URL/search term.'')
   \<and> guilds (demo_world Playing [demo_track ''b''] (Some (demo_track ''a''))) 1
       = Some (VC (demo_vc Playing))
   \<and> queue (the_state 1 (bot_play failing_command_env demo_interaction ''lofi''
        (demo_world Playing [demo_track ''b''] (Some (demo_track ''a''))))) = [demo_track ''b'']
   \<and> now_playing (the_state 1 (bot_play failing_command_env demo_interaction ''lofi''
        (demo_world Playing [demo_track ''b''] (Some (demo_track ''a''))))) = Some (demo_track ''a'')
   \<and> trace (bot_play failing_command_env demo_interaction ''lofi''
        (demo_world Playing [demo_track ''b''] (Some (demo_track ''a''))))
       = [Followup ''YouTube extraction failed for that query. Try another URL/search term.'']
   \<and> fst (api_play failing_api_env 1 demo_request
        (demo_world Playing [demo_track ''b''] (Some (demo_track ''a''))))
       = Inl (RuntimeError
           ''YouTube extraction failed for that query. Try another URL/search term.'')
   \<and> states (snd (api_play failing_api_env 1 demo_request
        (demo_world Playing [demo_track ''b''] (Some (demo_track ''a'')))))
       = states (demo_world Playing [demo_track ''b''] (Some (demo_track ''a'')))"
proof -
  let ?w = "demo_world Playing [demo_track ''b''] (Some (demo_track ''a''))"
  let ?m = "\<lparr>display_name = ''alice'', voice_channel = Some (7, ''General'')\<rparr>"
  let ?e = "RuntimeError ''YouTube extraction failed for that query. Try another URL/search term.''"
  have g: "guild_id demo_interaction = Some 1" by (simp add: demo_interaction_def)
  have c: "channel_id demo_interaction = Some 5" by (simp add: demo_interaction_def)
  have u: "user demo_interaction = Some ?m" by (simp add: demo_interaction_def)
  have v: "fst (ensure_voice (connect failing_command_env) demo_interaction (snd (get_state 1 ?w)))
             = Inr (demo_vc Playing)"
    by (simp add: ensure_voice_def demo_interaction_def ensure_member_def guild_voice_def
          is_connected_def demo_vc_def)
  have x: "extract_track (ydl failing_command_env) ''lofi'' (display_name ?m) = Inl ?e"
    by (simp add: failing_command_env_def extract_track_def lower_def lower_char_def Let_def)
  have d: "reply_delivered failing_command_env" by (simp add: failing_command_env_def)
  have gw: "guilds ?w 1 = Some (VC (demo_vc Playing))" by simp
  have av: "fst (ensure_voice_connection failing_api_env 1 (VC (demo_vc Playing))
                   (req_voice_channel_id demo_request) ?w) = Inr (demo_vc Playing)"
    by (simp add: ensure_voice_connection_def connected_voice_client_def is_connected_def
          demo_vc_def demo_request_def)
  have ax: "extract_track (api_ydl failing_api_env) (req_query demo_request)
              (req_requested_by demo_request) = Inl ?e"
    by (simp add: failing_api_env_def demo_request_def extract_track_def lower_def
          lower_char_def Let_def)
  note t = play_extraction_failure [of demo_interaction 1 5 ?m failing_command_env ?w
      "demo_vc Playing" "''lofi''" ?e "VC (demo_vc Playing)" failing_api_env demo_request
      "demo_vc Playing"]
  have bot: "guild_id demo_interaction = Some 1 \<and> channel_id demo_interaction = Some 5
      \<and> user demo_interaction = Some ?m
      \<and> fst (ensure_voice (connect failing_command_env) demo_interaction (snd (get_state 1 ?w)))
          = Inr (demo_vc Playing)
      \<and> extract_track (ydl failing_command_env) ''lofi'' (display_name ?m) = Inl ?e
      \<and> reply_delivered failing_command_env"
    using g c u v x d by blast
  have api: "guilds ?w 1 = Some (VC (demo_vc Playing))
      \<and> fst (ensure_voice_connection failing_api_env 1 (VC (demo_vc Playing))
                   (req_voice_channel_id demo_request) ?w) = Inr (demo_vc Playing)
      \<and> extract_track (api_ydl failing_api_env) (req_query demo_request)
              (req_requested_by demo_request) = Inl ?e"
    using gw av ax by blast
  from t bot have tb: "(\<forall>h. the_state h (bot_play failing_command_env demo_interaction ''lofi'' ?w)
                           = the_state h ?w)
        \<and> trace (bot_play failing_command_env demo_interaction ''lofi'' ?w)
            = trace ?w @ [Followup (str_exn ?e)]"
    by blast
  from t api have ta: "fst (api_play failing_api_env 1 demo_request ?w) = Inl ?e
        \<and> states (snd (api_play failing_api_env 1 demo_request ?w)) = states ?w"
    by blast
  show ?thesis
    using tb ta g c d x gw by simp
qed

end
